theory Spec2Isabelle
  imports Main "HOL-Library.Word"
begin

unbundle bit_operations_syntax

section \<open>Data model\<close>

type_synonym byte = "8 word"
type_synonym bytes = "byte list"
type_synonym uint32 = "32 word"
type_synonym uint64 = "64 word"

text \<open>
  Error values. The two errors that \<open>Subscribe\<close> builds itself with \<open>errors.New\<close> are
  constructors of their own; every error handed back by the operating system, by the
  \<open>io\<close> and \<open>proto\<close> packages or by the gRPC stream is an \<open>ErrOther\<close> with its text.
\<close>

datatype error =
    NoSuchTopic string
  | NoMessageSets string
  | ErrOther string

text \<open>The message of \<open>gopubsub.proto\<close>: \<open>uint64 offset = 1; bytes key = 10; bytes value = 11\<close>.\<close>

record Message =
  msg_offset :: uint64
  msg_key :: bytes
  msg_value :: bytes

text \<open>
  \<open>MessageSet\<close> is declared outside \<open>server.go\<close>; the fields are the two that
  \<open>server.go\<close> reads and writes (\<open>path\<close>, \<open>offsetBegin\<close>).
\<close>

record MessageSet =
  path :: string
  offsetBegin :: uint64

text \<open>
  Modelled from the spec: \<open>Topic.Write\<close> and \<open>Topic.Flush\<close> are not among the sources
  (section 4.2 gives them as \<open>Append(bytes) -> error\<close> and \<open>Flush() -> error\<close>); they
  are taken to hand their call to the topic's \<open>writer\<close>, the \<open>bufio.Writer\<close> that lines 81
  and 107 of \<open>server.go\<close> install. The writer keeps the bytes it has accepted, in order;
  its error \<open>werr\<close>, which is \<open>bufio.Writer\<close>'s \<open>err\<close> field: once a call has failed,
  every later \<open>Write\<close> and \<open>Flush\<close> accepts nothing and returns that same error; and a
  script with one entry for each coming call made while no error is set. \<open>None\<close> (or a
  script that has run out) is a call that succeeds; \<open>Some (n, e)\<close> is a call that accepts
  only the first \<open>n\<close> bytes and fails with the error \<open>e\<close>.
\<close>

type_synonym fault = "(nat \<times> error) option"

record Writer =
  accepted :: bytes
  werr :: "error option"
  faults :: "fault list"

text \<open>\<open>Topic\<close>, with the fields \<open>server.go\<close> uses (the listeners are left out).\<close>

record Topic =
  name :: string
  messageSets :: "MessageSet list"
  writer :: Writer

record Server =
  dir :: string
  topics :: "string \<rightharpoonup> Topic"

record PublishMultiRequest =
  pm_Topic :: string
  pm_Messages :: "Message list"

datatype PublishMultiReply = PublishMultiReply

record SubscribeRequest =
  sub_Topic :: string
  sub_Offset :: uint64

record SubscribeResponse =
  Messages :: "Message list"

text \<open>
  The functions of other packages that \<open>server.go\<close> calls and whose result the claims do
  not fix are parameters: \<open>path.Join\<close>, \<open>path.Dir\<close>, \<open>proto.Marshal\<close>,
  \<open>proto.Unmarshal\<close> (which fills the message it is given and returns an error or nil)
  and \<open>NewMessageSet\<close> (of this repository, outside \<open>server.go\<close>).
\<close>

record extern =
  path_Join :: "string list \<Rightarrow> string"
  path_Dir :: "string \<Rightarrow> string"
  proto_Marshal :: "Message \<Rightarrow> error + bytes"
  proto_Unmarshal :: "bytes \<Rightarrow> error option \<times> Message"
  NewMessageSet :: "string \<Rightarrow> error + MessageSet"

text \<open>
  The operating system as \<open>server.go\<close> sees it. \<open>os_fail\<close> holds the paths on which a
  system call fails and the error it returns; \<open>os_dirs\<close> the directories that exist and
  \<open>os_files\<close> the regular files with their contents; \<open>os_list\<close> what \<open>ioutil.ReadDir\<close>
  reports for a directory at start-up, an entry being a name and its \<open>IsDir\<close>;
  \<open>os_frames\<close> the results of the successive \<open>ReadMessage\<close> calls of a reader opened
  on a file, up to the point where the reader has to wait for more data; \<open>os_wfaults\<close>
  the fault script of a writer opened on a file.
\<close>

record OS =
  os_fail :: "string \<rightharpoonup> error"
  os_dirs :: "string set"
  os_files :: "string \<rightharpoonup> bytes"
  os_list :: "string \<Rightarrow> (string \<times> bool) list"
  os_frames :: "string \<Rightarrow> (error + bytes) list"
  os_wfaults :: "string \<Rightarrow> fault list"

section \<open>Library functions\<close>

subsection \<open>\<open>encoding/binary\<close>\<close>

definition PutUint32 :: "uint32 \<Rightarrow> bytes" where
  "PutUint32 v = [ucast v, ucast (drop_bit 8 v), ucast (drop_bit 16 v), ucast (drop_bit 24 v)]"

subsection \<open>\<open>hash/crc32\<close>\<close>

definition IEEE :: uint32 where
  "IEEE = 0xedb88320"

definition crc_shift :: "uint32 \<Rightarrow> uint32" where
  "crc_shift c = (if c AND 1 = 1 then drop_bit 1 c XOR IEEE else drop_bit 1 c)"

text \<open>The entry of \<open>IEEETable\<close> at index \<open>i\<close>: eight shifts of \<open>uint32(i)\<close>.\<close>

definition IEEETable :: "byte \<Rightarrow> uint32" where
  "IEEETable i = (crc_shift ^^ 8) (ucast i)"

text \<open>One round of \<open>update\<close>: \<open>crc = tab[byte(crc)^v] ^ (crc >> 8)\<close>.\<close>

definition crc_byte :: "uint32 \<Rightarrow> byte \<Rightarrow> uint32" where
  "crc_byte c v = IEEETable (ucast c XOR v) XOR drop_bit 8 c"

definition crc32_update :: "uint32 \<Rightarrow> bytes \<Rightarrow> uint32" where
  "crc32_update c p = NOT (foldl crc_byte (NOT c) p)"

definition ChecksumIEEE :: "bytes \<Rightarrow> uint32" where
  "ChecksumIEEE p = crc32_update 0 p"

text \<open>
  The \<open>hash.Hash32\<close> returned by \<open>crc32.NewIEEE\<close>: its state is the running checksum.
  \<open>Write\<close> feeds bytes into the state; \<open>Sum b\<close> appends the four bytes of the current
  checksum to \<open>b\<close>, most significant first, and returns that slice without changing the
  state; \<open>Sum32\<close> reads the state; \<open>Reset\<close> sets it to zero.
\<close>

type_synonym digest = uint32

definition crc32_NewIEEE :: digest where
  "crc32_NewIEEE = 0"

definition digest_Reset :: "digest \<Rightarrow> digest" where
  "digest_Reset d = 0"

definition digest_Write :: "digest \<Rightarrow> bytes \<Rightarrow> digest" where
  "digest_Write d p = crc32_update d p"

definition digest_Sum32 :: "digest \<Rightarrow> uint32" where
  "digest_Sum32 d = d"

definition digest_Sum :: "digest \<Rightarrow> bytes \<Rightarrow> bytes" where
  "digest_Sum d b =
     (let s = digest_Sum32 d
      in b @ [ucast (drop_bit 24 s), ucast (drop_bit 16 s), ucast (drop_bit 8 s), ucast s])"

subsection \<open>The topic's writer\<close>

text \<open>
  \<open>bufio.Writer.Write\<close> and \<open>Flush\<close>: with \<open>err\<close> set they return it at once; a call
  that fails sets it.
\<close>

definition writer_Write :: "bytes \<Rightarrow> Writer \<Rightarrow> error option \<times> Writer" where
  "writer_Write p w =
     (case werr w of
        Some e \<Rightarrow> (Some e, w)
      | None \<Rightarrow>
         (case faults w of
            [] \<Rightarrow> (None, w\<lparr>accepted := accepted w @ p\<rparr>)
          | None # fs \<Rightarrow> (None, w\<lparr>accepted := accepted w @ p, faults := fs\<rparr>)
          | Some (n, e) # fs \<Rightarrow>
             (Some e, w\<lparr>accepted := accepted w @ take n p, werr := Some e, faults := fs\<rparr>)))"

definition writer_Flush :: "Writer \<Rightarrow> error option \<times> Writer" where
  "writer_Flush w =
     (case werr w of
        Some e \<Rightarrow> (Some e, w)
      | None \<Rightarrow>
         (case faults w of
            [] \<Rightarrow> (None, w)
          | None # fs \<Rightarrow> (None, w\<lparr>faults := fs\<rparr>)
          | Some (n, e) # fs \<Rightarrow> (Some e, w\<lparr>werr := Some e, faults := fs\<rparr>)))"

definition topic_Write :: "bytes \<Rightarrow> Topic \<Rightarrow> error option \<times> Topic" where
  "topic_Write p t = (case writer_Write p (writer t) of (r, w) \<Rightarrow> (r, t\<lparr>writer := w\<rparr>))"

definition topic_Flush :: "Topic \<Rightarrow> error option \<times> Topic" where
  "topic_Flush t = (case writer_Flush (writer t) of (r, w) \<Rightarrow> (r, t\<lparr>writer := w\<rparr>))"

text \<open>
  \<open>io.Copy(topic, bytes.NewReader(encoded))\<close>: the reader's \<open>WriteTo\<close> returns at once
  when nothing is left to read, and otherwise hands all its bytes to one \<open>Write\<close>.
\<close>

definition io_Copy :: "bytes \<Rightarrow> Topic \<Rightarrow> error option \<times> Topic" where
  "io_Copy encoded t = (if encoded = [] then (None, t) else topic_Write encoded t)"

subsection \<open>\<open>os\<close>, \<open>io/ioutil\<close>, \<open>bufio\<close>, \<open>path/filepath\<close>, \<open>fmt\<close>\<close>

definition os_Stat :: "string \<Rightarrow> OS \<Rightarrow> error + bool" where
  "os_Stat p os =
     (case os_fail os p of
        Some err \<Rightarrow> Inl err
      | None \<Rightarrow>
         (if p \<in> os_dirs os then Inr True
          else if os_files os p \<noteq> None then Inr False
          else Inl (ErrOther ''stat: no such file or directory'')))"

definition ioutil_ReadDir :: "string \<Rightarrow> OS \<Rightarrow> error + (string \<times> bool) list" where
  "ioutil_ReadDir p os =
     (case os_fail os p of
        Some err \<Rightarrow> Inl err
      | None \<Rightarrow>
         (if p \<in> os_dirs os then Inr (os_list os p)
          else Inl (ErrOther ''readdir: not a directory'')))"

text \<open>
  \<open>os.MkdirAll\<close> creates the directory and every parent that is missing. The parents of
  a path are its proper prefixes that end before a slash; the prefix before a leading
  slash is empty and is no parent. A call that fails for any reason, also on the way
  through the parents, is an entry of \<open>os_fail\<close> at the path of the call.
\<close>

fun parents_scan :: "string \<Rightarrow> string \<Rightarrow> string list" where
  "parents_scan pre [] = []"
| "parents_scan pre (c # cs) =
     (if c = CHR ''/'' \<and> pre \<noteq> [] then [pre] else []) @ parents_scan (pre @ [c]) cs"

definition path_parents :: "string \<Rightarrow> string list" where
  "path_parents p = parents_scan [] p"

definition os_MkdirAll :: "string \<Rightarrow> OS \<Rightarrow> error option \<times> OS" where
  "os_MkdirAll p os =
     (case os_fail os p of
        Some err \<Rightarrow> (Some err, os)
      | None \<Rightarrow>
         (if os_files os p \<noteq> None then (Some (ErrOther ''mkdir: not a directory''), os)
          else (None, os\<lparr>os_dirs := os_dirs os \<union> set (path_parents p @ [p])\<rparr>)))"

text \<open>
  \<open>os.OpenFile\<close>; \<open>create\<close> says whether \<open>O_CREATE\<close> is among the flags (no call of
  \<open>server.go\<close> passes \<open>O_TRUNC\<close>). The file handle is the path. \<open>os.Open\<close> is the call
  without \<open>O_CREATE\<close>.
\<close>

definition os_OpenFile :: "bool \<Rightarrow> string \<Rightarrow> OS \<Rightarrow> (error + string) \<times> OS" where
  "os_OpenFile create p os =
     (case os_fail os p of
        Some err \<Rightarrow> (Inl err, os)
      | None \<Rightarrow>
         (if os_files os p \<noteq> None then (Inr p, os)
          else if create then (Inr p, os\<lparr>os_files := (os_files os)(p \<mapsto> [])\<rparr>)
          else (Inl (ErrOther ''open: no such file or directory''), os)))"

definition os_Open :: "string \<Rightarrow> OS \<Rightarrow> error + string" where
  "os_Open p os = fst (os_OpenFile False p os)"

definition bufio_NewWriter :: "string \<Rightarrow> OS \<Rightarrow> Writer" where
  "bufio_NewWriter f os = \<lparr>accepted = [], werr = None, faults = os_wfaults os f\<rparr>"

text \<open>
  \<open>filepath.Ext\<close>: scanning from the end, the suffix that starts at the last dot of the
  last path element, or the empty string.
\<close>

fun ext_scan :: "string \<Rightarrow> string \<Rightarrow> string" where
  "ext_scan [] suffix = []"
| "ext_scan (c # cs) suffix =
     (if c = CHR ''/'' then []
      else if c = CHR ''.'' then c # suffix
      else ext_scan cs (c # suffix))"

definition filepath_Ext :: "string \<Rightarrow> string" where
  "filepath_Ext p = ext_scan (rev p) []"

text \<open>\<open>fmt.Sprintf("%012d", n)\<close> for \<open>n\<close> not negative.\<close>

fun decimal :: "nat \<Rightarrow> string" where
  "decimal n =
     (if n < 10 then [''0123456789'' ! n]
      else decimal (n div 10) @ [''0123456789'' ! (n mod 10)])"

declare decimal.simps [simp del]

definition Sprintf_012d :: "nat \<Rightarrow> string" where
  "Sprintf_012d n = replicate (12 - length (decimal n)) (CHR ''0'') @ decimal n"

text \<open>
  Modelled from the spec: \<open>MessageSetSort\<close> is not among the sources; section 4.3 has the
  segments of a topic sorted ascending by \<open>offsetBegin\<close>.
\<close>

definition sort_MessageSetSort :: "MessageSet list \<Rightarrow> MessageSet list" where
  "sort_MessageSetSort sets = sort_key offsetBegin sets"

section \<open>\<open>PublishMulti\<close>\<close>

text \<open>
  The framing loop of \<open>PublishMulti\<close> (lines 117 to 141). The error of \<open>io.Copy\<close> is
  assigned and never read: the loop goes on with the next message.
\<close>

fun publish_loop :: "(Message \<Rightarrow> error + bytes) \<Rightarrow> digest \<Rightarrow> Message list \<Rightarrow> Topic
    \<Rightarrow> error option \<times> Topic" where
  "publish_loop marshal crc [] topic = (None, topic)"
| "publish_loop marshal crc (message # rest) topic =
     (case marshal message of
        Inl err \<Rightarrow> (Some err, topic)
      | Inr encoded \<Rightarrow>
         (case topic_Write (PutUint32 (of_nat (length encoded + 5))) topic of
            (Some err, t1) \<Rightarrow> (Some err, t1)
          | (None, t1) \<Rightarrow>
             (case topic_Write [0] t1 of
                (Some err, t2) \<Rightarrow> (Some err, t2)
              | (None, t2) \<Rightarrow>
                 (let crc1 = digest_Reset crc;
                      unused = digest_Sum crc1 encoded
                  in case topic_Write (PutUint32 (digest_Sum32 crc1)) t2 of
                       (Some err, t3) \<Rightarrow> (Some err, t3)
                     | (None, t3) \<Rightarrow>
                        (case io_Copy encoded t3 of
                           (err, t4) \<Rightarrow> publish_loop marshal crc1 rest t4)))))"

text \<open>
  Lines 112 to 148: the loop, then one \<open>Flush\<close>. The registry holds a pointer to the
  topic, so what the calls do to the topic's writer is seen through the registry on every
  way out.
\<close>

definition publish_append :: "extern \<Rightarrow> PublishMultiRequest \<Rightarrow> Server \<Rightarrow> Topic
    \<Rightarrow> (error + PublishMultiReply) \<times> Server" where
  "publish_append ext req s topic =
     (case publish_loop (proto_Marshal ext) crc32_NewIEEE (pm_Messages req) topic of
        (Some err, t1) \<Rightarrow> (Inl err, s\<lparr>topics := (topics s)(pm_Topic req \<mapsto> t1)\<rparr>)
      | (None, t1) \<Rightarrow>
         (case topic_Flush t1 of
            (Some err, t2) \<Rightarrow> (Inl err, s\<lparr>topics := (topics s)(pm_Topic req \<mapsto> t2)\<rparr>)
          | (None, t2) \<Rightarrow>
             (Inr PublishMultiReply, s\<lparr>topics := (topics s)(pm_Topic req \<mapsto> t2)\<rparr>)))"

definition PublishMulti :: "extern \<Rightarrow> PublishMultiRequest \<Rightarrow> Server \<times> OS
    \<Rightarrow> (error + PublishMultiReply) \<times> Server \<times> OS" where
  "PublishMulti ext req st =
     (case st of (s, os) \<Rightarrow>
        (case topics s (pm_Topic req) of
           Some topic \<Rightarrow> (case publish_append ext req s topic of (r, s1) \<Rightarrow> (r, s1, os))
         | None \<Rightarrow>
            (let offset = 0;
                 messageSetPath =
                   path_Join ext [dir s, pm_Topic req, Sprintf_012d offset @ ''.pubsub'']
             in case os_MkdirAll (path_Dir ext messageSetPath) os of
                  (Some err, os1) \<Rightarrow> (Inl err, s, os1)
                | (None, os1) \<Rightarrow>
                   (case os_OpenFile True messageSetPath os1 of
                      (Inl err, os2) \<Rightarrow> (Inl err, s, os2)
                    | (Inr f, os2) \<Rightarrow>
                       (let messageSet = \<lparr>path = messageSetPath, offsetBegin = of_nat offset\<rparr>;
                            topic0 = \<lparr>name = pm_Topic req, messageSets = [],
                                       writer = bufio_NewWriter f os2\<rparr>;
                            topic = topic0\<lparr>messageSets := messageSets topic0 @ [messageSet]\<rparr>;
                            s1 = s\<lparr>topics := (topics s)(name topic \<mapsto> topic)\<rparr>
                        in case publish_append ext req s1 topic of
                             (r, s2) \<Rightarrow> (r, s2, os2))))))"

section \<open>\<open>Subscribe\<close>\<close>

text \<open>
  The subscriber's stream (\<open>srv\<close>): the responses sent so far and a script with the
  result of each coming \<open>Send\<close>, \<open>None\<close> (or a script that has run out) for success.
\<close>

record Stream =
  sent :: "SubscribeResponse list"
  send_faults :: "error option list"

definition srv_Send :: "SubscribeResponse \<Rightarrow> Stream \<Rightarrow> error option \<times> Stream" where
  "srv_Send response srv =
     (case send_faults srv of
        [] \<Rightarrow> (None, srv\<lparr>sent := sent srv @ [response]\<rparr>)
      | None # fs \<Rightarrow> (None, srv\<lparr>sent := sent srv @ [response], send_faults := fs\<rparr>)
      | Some err # fs \<Rightarrow> (Some err, srv\<lparr>send_faults := fs\<rparr>))"

text \<open>
  How a call of \<open>Subscribe\<close> ends: it returns an error, or it stays in \<open>ReadMessage\<close>,
  waiting for data that is not in the file yet. It has no other way out of its last loop.
\<close>

datatype ending = Returned error | Waiting

text \<open>
  Modelled from the spec: \<open>NewMessageSetReader\<close> and \<open>ReadMessage\<close> are not among the
  sources. By section 4.5 a reader decodes the next frame of its file, fails on an I/O or
  checksum error, and suspends when no full frame is left. A reader is the list of the
  results that its coming \<open>ReadMessage\<close> calls give (\<open>os_frames\<close> of its file); at the
  end of the list the call waits.
\<close>

type_synonym MessageSetReader = "(error + bytes) list"

text \<open>Lines 164 to 171, the loop from \<open>i = 0\<close> over the rest of the list.\<close>

fun locate_loop :: "uint64 \<Rightarrow> MessageSet \<Rightarrow> MessageSet list \<Rightarrow> MessageSet" where
  "locate_loop off messageSet [] = messageSet"
| "locate_loop off messageSet (m # rest) =
     (if offsetBegin m \<le> off then locate_loop off m rest else messageSet)"

text \<open>Lines 181 to 186: \<open>i\<close> and the bound \<open>in.Offset - messageSet.offsetBegin\<close> are \<open>uint64\<close>.\<close>

fun skip_loop :: "uint64 \<Rightarrow> uint64 \<Rightarrow> MessageSetReader \<Rightarrow> ending + MessageSetReader" where
  "skip_loop i n [] = (if i < n then Inl Waiting else Inr [])"
| "skip_loop i n (r # rest) =
     (if i < n then
        (case r of
           Inl err \<Rightarrow> Inl (Returned err)
         | Inr messageBytes \<Rightarrow> skip_loop (i + 1) n rest)
      else Inr (r # rest))"

text \<open>
  Lines 188 to 203. The error of \<open>proto.Unmarshal\<close> is overwritten by the result of
  \<open>srv.Send\<close> before anything reads it.
\<close>

fun deliver_loop :: "(bytes \<Rightarrow> error option \<times> Message) \<Rightarrow> MessageSetReader \<Rightarrow> Stream
    \<Rightarrow> ending \<times> Stream" where
  "deliver_loop unmarshal [] srv = (Waiting, srv)"
| "deliver_loop unmarshal (r # rest) srv =
     (case r of
        Inl err \<Rightarrow> (Returned err, srv)
      | Inr messageBytes \<Rightarrow>
         (case unmarshal messageBytes of
            (err, message) \<Rightarrow>
              (let response0 = \<lparr>Messages = []\<rparr>;
                   response = response0\<lparr>Messages := Messages response0 @ [message]\<rparr>
               in case srv_Send response srv of
                    (Some err, srv1) \<Rightarrow> (Returned err, srv1)
                  | (None, srv1) \<Rightarrow> deliver_loop unmarshal rest srv1)))"

definition Subscribe :: "extern \<Rightarrow> OS \<Rightarrow> Server \<Rightarrow> SubscribeRequest \<Rightarrow> Stream
    \<Rightarrow> ending \<times> Stream" where
  "Subscribe ext os s req srv =
     (case topics s (sub_Topic req) of
        None \<Rightarrow> (Returned (NoSuchTopic (sub_Topic req)), srv)
      | Some topic \<Rightarrow>
         (case messageSets topic of
            [] \<Rightarrow> (Returned (NoMessageSets (name topic)), srv)
          | first # others \<Rightarrow>
             (let messageSet = locate_loop (sub_Offset req) first (first # others)
              in case os_Open (path messageSet) os of
                   Inl err \<Rightarrow> (Returned err, srv)
                 | Inr f \<Rightarrow>
                    (case skip_loop 0 (sub_Offset req - offsetBegin messageSet)
                            (os_frames os f) of
                       Inl e \<Rightarrow> (e, srv)
                     | Inr mReader \<Rightarrow> deliver_loop (proto_Unmarshal ext) mReader srv))))"

section \<open>\<open>NewServer\<close> and \<open>init\<close>\<close>

text \<open>A call returns a value, returns an error, or panics.\<close>

datatype 'a outcome = Ok 'a | Err error | Panic string

text \<open>Lines 59 to 69: the files of one topic directory.\<close>

fun init_messageSets :: "extern \<Rightarrow> string \<Rightarrow> string \<Rightarrow> (string \<times> bool) list
    \<Rightarrow> MessageSet list \<Rightarrow> error + MessageSet list" where
  "init_messageSets ext d tn [] sets = Inr sets"
| "init_messageSets ext d tn (messageSetFile # rest) sets =
     (if filepath_Ext (fst messageSetFile) \<noteq> ''.pubsub''
      then init_messageSets ext d tn rest sets
      else case NewMessageSet ext (path_Join ext [d, tn, fst messageSetFile]) of
             Inl err \<Rightarrow> Inl err
           | Inr messageSet \<Rightarrow> init_messageSets ext d tn rest (sets @ [messageSet]))"

text \<open>
  Lines 52 to 84: the entries of the data directory. The guard of line 70 compares a
  length with zero by \<open><\<close>; line 76 indexes the sorted slice at \<open>len - 1\<close>, which panics
  on an empty slice.
\<close>

fun init_loop :: "extern \<Rightarrow> OS \<Rightarrow> string \<Rightarrow> (string \<times> bool) list \<Rightarrow> (string \<rightharpoonup> Topic)
    \<Rightarrow> (string \<rightharpoonup> Topic) outcome" where
  "init_loop ext os d [] ts = Ok ts"
| "init_loop ext os d (fileInfo # rest) ts =
     (if snd fileInfo then
        (case ioutil_ReadDir (path_Join ext [d, fst fileInfo]) os of
           Inl err \<Rightarrow> Err err
         | Inr files \<Rightarrow>
            (case init_messageSets ext d (fst fileInfo) files [] of
               Inl err \<Rightarrow> Err err
             | Inr sets \<Rightarrow>
                (if int (length sets) < 0 then init_loop ext os d rest ts
                 else
                   (let sorted = sort_MessageSetSort sets
                    in if length sorted = 0
                       then Panic ''runtime error: index out of range''
                       else
                         (let currentMessageSet = sorted ! (length sorted - 1)
                          in case os_OpenFile False (path currentMessageSet) os of
                               (Inl err, os1) \<Rightarrow> Err err
                             | (Inr topicFile, os1) \<Rightarrow>
                                init_loop ext os d rest
                                  (ts(fst fileInfo \<mapsto>
                                     \<lparr>name = fst fileInfo, messageSets = sorted,
                                      writer = bufio_NewWriter topicFile os\<rparr>)))))))
      else init_loop ext os d rest ts)"

definition init :: "extern \<Rightarrow> OS \<Rightarrow> Server \<Rightarrow> Server outcome" where
  "init ext os s =
     (case os_Stat (dir s) os of
        Inl err \<Rightarrow> Err err
      | Inr isDir \<Rightarrow>
         (case ioutil_ReadDir (dir s) os of
            Inl err \<Rightarrow> Err err
          | Inr files \<Rightarrow>
             (case init_loop ext os (dir s) files (topics s) of
                Ok ts \<Rightarrow> Ok (s\<lparr>topics := ts\<rparr>)
              | Err err \<Rightarrow> Err err
              | Panic msg \<Rightarrow> Panic msg)))"

definition NewServer :: "extern \<Rightarrow> OS \<Rightarrow> string \<Rightarrow> Server outcome" where
  "NewServer ext os d = init ext os \<lparr>dir = d, topics = Map.empty\<rparr>"

section \<open>The specification's side, and instances of the parameters\<close>

text \<open>\<open>binary.LittleEndian.Uint32\<close>: the number that four bytes stand for.\<close>

definition Uint32_le :: "bytes \<Rightarrow> nat" where
  "Uint32_le b = foldr (\<lambda>x n. unat x + 256 * n) b 0"

text \<open>
  The frame of section 4.1 for a payload: four bytes of length that read as the payload's
  length plus five, one marker byte of value zero, four bytes of checksum, the payload.
\<close>

definition spec_frame :: "bytes \<Rightarrow> bytes \<Rightarrow> bool" where
  "spec_frame payload f \<longleftrightarrow>
     length f = 9 + length payload \<and> Uint32_le (take 4 f) = length payload + 5 \<and>
     f ! 4 = 0 \<and> drop 9 f = payload"

text \<open>
  \<open>Locate\<close> of section 4.3: the last segment whose \<open>offsetBegin\<close> is at most the offset,
  and the first segment when there is none.
\<close>

definition spec_Locate :: "MessageSet list \<Rightarrow> uint64 \<Rightarrow> MessageSet" where
  "spec_Locate sets off =
     (case filter (\<lambda>m. offsetBegin m \<le> off) sets of
        [] \<Rightarrow> hd sets
      | q # qs \<Rightarrow> last (q # qs))"

text \<open>
  The proto3 wire format of \<open>Message\<close>, as \<open>proto.Marshal\<close> writes it: fields in the
  order of their numbers, a field with the zero value left out; tag \<open>0x08\<close> and a varint
  for \<open>offset\<close>, tags \<open>0x52\<close> and \<open>0x5A\<close> with a length and the bytes for \<open>key\<close> and
  \<open>value\<close>.
\<close>

fun varint :: "nat \<Rightarrow> bytes" where
  "varint n = (if n < 128 then [of_nat n] else of_nat (n mod 128 + 128) # varint (n div 128))"

declare varint.simps [simp del]

definition wire_Marshal :: "Message \<Rightarrow> error + bytes" where
  "wire_Marshal m =
     Inr ((if msg_offset m = 0 then [] else 0x08 # varint (unat (msg_offset m))) @
          (if msg_key m = [] then [] else 0x52 # varint (length (msg_key m)) @ msg_key m) @
          (if msg_value m = [] then []
           else 0x5A # varint (length (msg_value m)) @ msg_value m))"

text \<open>
  An instance of \<open>proto.Unmarshal\<close> for a known set of messages: it decodes the encoding
  of each of them and fails on any other input, leaving the message empty.
\<close>

definition unmarshal_among :: "Message list \<Rightarrow> bytes \<Rightarrow> error option \<times> Message" where
  "unmarshal_among ms b =
     (case filter (\<lambda>m. wire_Marshal m = Inr b) ms of
        [] \<Rightarrow> (Some (ErrOther ''proto: cannot parse''),
               \<lparr>msg_offset = 0, msg_key = [], msg_value = []\<rparr>)
      | m # others \<Rightarrow> (None, m))"

text \<open>
  \<open>path.Join\<close> and \<open>path.Dir\<close> on elements that are clean already (no empty element
  inside, no dot elements, no doubled slash): join with a slash, drop the last element.
\<close>

definition slash_Join :: "string list \<Rightarrow> string" where
  "slash_Join elems =
     (case filter (\<lambda>e. e \<noteq> []) elems of
        [] \<Rightarrow> []
      | e # es \<Rightarrow> foldl (\<lambda>a b. a @ ''/'' @ b) e es)"

definition slash_Dir :: "string \<Rightarrow> string" where
  "slash_Dir p =
     (let d = rev (drop 1 (dropWhile (\<lambda>c. c \<noteq> CHR ''/'') (rev p)))
      in if d = [] then ''.'' else d)"

text \<open>
  Modelled from the spec: \<open>NewMessageSet\<close> is not among the sources; by section 4.3 it
  takes the starting offset from the digits of the file's name.
\<close>

definition digits_MessageSet :: "string \<Rightarrow> error + MessageSet" where
  "digits_MessageSet p =
     (let base = rev (takeWhile (\<lambda>c. c \<noteq> CHR ''/'') (rev p));
          ds = takeWhile (\<lambda>c. c \<noteq> CHR ''.'') base
      in if ds \<noteq> [] \<and> list_all (\<lambda>c. c \<in> set ''0123456789'') ds
         then Inr \<lparr>path = p,
                   offsetBegin = of_nat (foldl (\<lambda>n c. 10 * n + (of_char c - 48)) 0 ds)\<rparr>
         else Inl (ErrOther ''message set: bad file name''))"

definition plain_extern :: "Message list \<Rightarrow> extern" where
  "plain_extern known =
     \<lparr>path_Join = slash_Join, path_Dir = slash_Dir, proto_Marshal = wire_Marshal,
      proto_Unmarshal = unmarshal_among known, NewMessageSet = digits_MessageSet\<rparr>"

text \<open>
  An operating system built from its directories, each with the entries that \<open>ReadDir\<close>
  reports, and from its files, each with the frames a reader finds in it. A file holds its
  frames as \<open>PublishMulti\<close> writes them. No call fails and no writer has a fault.
\<close>

definition file_bytes :: "(error + bytes) list \<Rightarrow> bytes" where
  "file_bytes rs =
     concat (map (\<lambda>r. case r of
                         Inl err \<Rightarrow> []
                       | Inr p \<Rightarrow> PutUint32 (of_nat (length p + 5)) @ [0] @ PutUint32 0 @ p) rs)"

definition os_of :: "(string \<times> (string \<times> bool) list) list
    \<Rightarrow> (string \<times> (error + bytes) list) list \<Rightarrow> OS" where
  "os_of ds fs =
     \<lparr>os_fail = Map.empty,
      os_dirs = set (map fst ds),
      os_files = map_of (map (\<lambda>(p, rs). (p, file_bytes rs)) fs),
      os_list = (\<lambda>p. case map_of ds p of None \<Rightarrow> [] | Some es \<Rightarrow> es),
      os_frames = (\<lambda>p. case map_of fs p of None \<Rightarrow> [] | Some rs \<Rightarrow> rs),
      os_wfaults = (\<lambda>p. [])\<rparr>"

section \<open>Evaluation lemmas\<close>

lemma funpow8: "(f ^^ 8) x = f (f (f (f (f (f (f (f x)))))))"
  by (simp add: eval_nat_numeral)

lemma not_uint32: "NOT (x::32 word) = x XOR 0xffffffff"
proof -
  have e: "(0xffffffff::32 word) = - 1" by simp
  show ?thesis unfolding e by simp
qed

lemma crc32_update_xor:
  "crc32_update c p = foldl crc_byte (c XOR 0xffffffff) p XOR 0xffffffff"
  unfolding crc32_update_def not_uint32 ..

lemmas crc_eval = ChecksumIEEE_def crc32_update_xor crc_byte_def IEEETable_def funpow8
  crc_shift_def IEEE_def

lemmas writer_eval = topic_Write_def topic_Flush_def writer_Write_def writer_Flush_def
  io_Copy_def PutUint32_def digest_Reset_def digest_Sum32_def digest_Sum_def crc32_NewIEEE_def

lemmas os_eval = os_Stat_def ioutil_ReadDir_def os_MkdirAll_def os_OpenFile_def os_Open_def
  bufio_NewWriter_def os_of_def file_bytes_def path_parents_def

text \<open>The check values of CRC-32: of the empty input, and of the digits one to nine.\<close>

lemma ChecksumIEEE_Nil: "ChecksumIEEE [] = 0"
  by (simp add: crc_eval)

lemma ChecksumIEEE_check:
  "ChecksumIEEE [0x31, 0x32, 0x33, 0x34, 0x35, 0x36, 0x37, 0x38, 0x39] = 0xCBF43926"
  by (simp add: crc_eval)

lemma Sprintf_012d_0: "Sprintf_012d 0 = ''000000000000''"
  by (simp add: Sprintf_012d_def decimal.simps [of 0] eval_nat_numeral)

lemma varint_small: "n < 128 \<Longrightarrow> varint n = [of_nat n]"
  by (simp add: varint.simps)

lemma wire_a:
  "wire_Marshal \<lparr>msg_offset = 0, msg_key = [], msg_value = [0x61]\<rparr> = Inr [0x5A, 1, 0x61]"
  by (simp add: wire_Marshal_def varint_small)

lemma wire_b:
  "wire_Marshal \<lparr>msg_offset = 0, msg_key = [], msg_value = [0x62]\<rparr> = Inr [0x5A, 1, 0x62]"
  by (simp add: wire_Marshal_def varint_small)

lemma minus2_uint64: "(- 2 :: 64 word) = 18446744073709551614"
  by simp

section \<open>The frame that \<open>PublishMulti\<close> writes\<close>

lemma length_PutUint32: "length (PutUint32 v) = 4"
  by (simp add: PutUint32_def)

lemma le32_digits:
  fixes n :: nat
  assumes b: "n < 2 ^ 32"
  shows "n mod 256 + 256 * (n div 256 mod 256 + 256 * (n div 65536 mod 256
          + 256 * (n div 16777216 mod 256))) = n"
proof -
  define q1 where "q1 = n div 256"
  define q2 where "q2 = q1 div 256"
  define q3 where "q3 = q2 div 256"
  have d2: "n div 65536 = q2" by (simp add: q1_def q2_def div_mult2_eq)
  have d3: "n div 16777216 = q3" by (simp add: q1_def q2_def q3_def div_mult2_eq)
  have "q3 < 256" using b unfolding d3 [symmetric] by (simp add: less_mult_imp_div_less)
  then have m3: "q3 mod 256 = q3" by simp
  have e2: "q2 mod 256 + 256 * q3 = q2" unfolding q3_def by simp
  have e1: "q1 mod 256 + 256 * q2 = q1" unfolding q2_def by simp
  have e0: "n mod 256 + 256 * q1 = n" unfolding q1_def by simp
  show ?thesis
    unfolding d2 d3 m3 q1_def [symmetric] e2 e1 e0 ..
qed

lemma Uint32_le_PutUint32: "Uint32_le (PutUint32 v) = unat v"
proof -
  have b: "unat v < 2 ^ 32" using unsigned_less [of v] by simp
  have s: "unat v div 16777216 < 256" using b by (simp add: less_mult_imp_div_less)
  show ?thesis
    using le32_digits [OF b] s
    by (simp add: Uint32_le_def PutUint32_def unsigned_ucast_eq take_bit_eq_mod
        unat_drop_bit_eq drop_bit_eq_div unat_div)
qed

text \<open>
  After \<open>Reset\<close> the state is zero and \<open>Sum\<close> leaves it so: the checksum field of every
  frame is four zero bytes.
\<close>

lemma checksum_field_zero: "PutUint32 (digest_Sum32 (digest_Reset crc)) = [0, 0, 0, 0]"
  by (simp add: PutUint32_def digest_Sum32_def digest_Reset_def)

lemma publish_loop_ok:
  assumes "map marshal ms = map Inr ps" and "werr (writer topic) = None"
    and "faults (writer topic) = []"
  shows "publish_loop marshal crc ms topic =
           (None, topic\<lparr>writer := (writer topic)\<lparr>accepted := accepted (writer topic) @
              concat (map (\<lambda>p. PutUint32 (of_nat (length p + 5)) @ [0] @ PutUint32 0 @ p) ps)\<rparr>\<rparr>)"
  using assms
proof (induction ms arbitrary: ps topic crc)
  case Nil
  then show ?case by simp
next
  case (Cons m ms)
  then obtain p ps' where ps: "ps = p # ps'" and m: "marshal m = Inr p"
    and rest: "map marshal ms = map Inr ps'"
    by (cases ps) auto
  show ?case
    using Cons.prems(2,3)
    by (simp add: ps m topic_Write_def writer_Write_def io_Copy_def digest_Reset_def
        digest_Sum32_def Let_def Cons.IH [OF rest])
qed

lemma spec_frame_code:
  assumes "length p + 5 < 2 ^ 32"
  shows "spec_frame p (PutUint32 (of_nat (length p + 5)) @ [0] @ PutUint32 c @ p)"
proof -
  have "unat (of_nat (length p + 5) :: 32 word) = length p + 5"
    by (simp only: unat_of_nat) (use assms in simp)
  then show ?thesis
    by (simp add: spec_frame_def length_PutUint32 Uint32_le_PutUint32 nth_append)
qed

text \<open>
  Claim C1. The checksum field of a frame should be the CRC-32 of the payload. The loop
  calls \<open>crc.Sum(encoded)\<close>, which appends the current checksum to its argument (and the
  result is dropped) instead of feeding \<open>encoded\<close> to the hash, so \<open>Sum32\<close> is read right
  after \<open>Reset\<close>. Publishing one message with value \<open>"a"\<close> to a new topic writes a frame
  whose checksum field is \<open>00 00 00 00\<close>, while the CRC-32 of the payload
  \<open>5A 01 61\<close> is \<open>0xBDC412FB\<close>, in little-endian bytes \<open>FB 12 C4 BD\<close>.
\<close>

theorem C1_checksum_field_not_crc:
  "PublishMulti (plain_extern [])
     \<lparr>pm_Topic = ''t'', pm_Messages = [\<lparr>msg_offset = 0, msg_key = [], msg_value = [0x61]\<rparr>]\<rparr>
     (\<lparr>dir = ''data'', topics = Map.empty\<rparr>, os_of [(''data'', [])] [])
   = (Inr PublishMultiReply,
      \<lparr>dir = ''data'',
       topics = [''t'' \<mapsto> \<lparr>name = ''t'',
          messageSets = [\<lparr>path = ''data/t/000000000000.pubsub'', offsetBegin = 0\<rparr>],
          writer = \<lparr>accepted = [8, 0, 0, 0, 0, 0, 0, 0, 0, 0x5A, 1, 0x61], werr = None, faults = []\<rparr>\<rparr>]\<rparr>,
      (os_of [(''data'', [])] [])
        \<lparr>os_dirs := {''data'', ''data/t''},
         os_files := [''data/t/000000000000.pubsub'' \<mapsto> []]\<rparr>)
   \<and> PutUint32 (ChecksumIEEE [0x5A, 1, 0x61]) = [0xFB, 0x12, 0xC4, 0xBD]"
proof -
  have "PutUint32 (ChecksumIEEE [0x5A, 1, 0x61]) = [0xFB, 0x12, 0xC4, 0xBD]"
    by (simp add: crc_eval PutUint32_def)
  moreover have "PublishMulti (plain_extern [])
     \<lparr>pm_Topic = ''t'', pm_Messages = [\<lparr>msg_offset = 0, msg_key = [], msg_value = [0x61]\<rparr>]\<rparr>
     (\<lparr>dir = ''data'', topics = Map.empty\<rparr>, os_of [(''data'', [])] [])
   = (Inr PublishMultiReply,
      \<lparr>dir = ''data'',
       topics = [''t'' \<mapsto> \<lparr>name = ''t'',
          messageSets = [\<lparr>path = ''data/t/000000000000.pubsub'', offsetBegin = 0\<rparr>],
          writer = \<lparr>accepted = [8, 0, 0, 0, 0, 0, 0, 0, 0, 0x5A, 1, 0x61], werr = None, faults = []\<rparr>\<rparr>]\<rparr>,
      (os_of [(''data'', [])] [])
        \<lparr>os_dirs := {''data'', ''data/t''},
         os_files := [''data/t/000000000000.pubsub'' \<mapsto> []]\<rparr>)"
    by (simp add: PublishMulti_def publish_append_def Sprintf_012d_0 wire_a writer_eval os_eval
        plain_extern_def slash_Join_def slash_Dir_def insert_commute Let_def)
  ultimately show ?thesis by simp
qed

text \<open>
  Claim C5. When every message of the batch is encoded and no write fails, the bytes that
  the loop hands to the topic's writer are, message after message and with nothing in
  between, a frame of the layout of section 4.1: four bytes that read, little-endian, as
  the payload's length plus five; one byte of value zero; four bytes of checksum; the
  payload. The length field has 32 bits, so the payload's length plus five has to be
  below \<open>2 ^ 32\<close>.
\<close>

theorem C5_frame_layout:
  assumes "map marshal ms = map Inr ps"
    and "\<forall>p\<in>set ps. length p + 5 < 2 ^ 32"
    and "werr (writer topic) = None"
    and "faults (writer topic) = []"
  shows "\<exists>fs. list_all2 spec_frame ps fs \<and>
           publish_loop marshal crc ms topic =
             (None, topic\<lparr>writer := (writer topic)\<lparr>accepted :=
                      accepted (writer topic) @ concat fs\<rparr>\<rparr>)"
proof -
  let ?f = "\<lambda>p. PutUint32 (of_nat (length p + 5)) @ [0] @ PutUint32 0 @ p"
  have "list_all2 spec_frame ps (map ?f ps)"
    unfolding list_all2_map2 list_all2_same using assms(2) spec_frame_code by blast
  then show ?thesis
    using publish_loop_ok [OF assms(1) assms(3) assms(4)] by blast
qed

theorem C5_frame_layout_witness:
  "map wire_Marshal [\<lparr>msg_offset = 0, msg_key = [], msg_value = [0x61]\<rparr>,
                     \<lparr>msg_offset = 0, msg_key = [], msg_value = [0x62]\<rparr>]
     = map Inr [[0x5A, 1, 0x61], [0x5A, 1, 0x62]]
   \<and> (\<exists>fs. list_all2 spec_frame [[0x5A, 1, 0x61], [0x5A, 1, 0x62]] fs \<and>
         publish_loop wire_Marshal crc32_NewIEEE
           [\<lparr>msg_offset = 0, msg_key = [], msg_value = [0x61]\<rparr>,
            \<lparr>msg_offset = 0, msg_key = [], msg_value = [0x62]\<rparr>]
           \<lparr>name = ''t'', messageSets = [], writer = \<lparr>accepted = [], werr = None, faults = []\<rparr>\<rparr>
         = (None, \<lparr>name = ''t'', messageSets = [],
                   writer = \<lparr>accepted = concat fs, werr = None, faults = []\<rparr>\<rparr>))"
proof -
  have m: "map wire_Marshal [\<lparr>msg_offset = 0, msg_key = [], msg_value = [0x61]\<rparr>,
                     \<lparr>msg_offset = 0, msg_key = [], msg_value = [0x62]\<rparr>]
     = map Inr [[0x5A, 1, 0x61], [0x5A, 1, 0x62]]"
    by (simp add: wire_a wire_b)
  have b: "\<forall>p\<in>set [[0x5A, 1, 0x61], [0x5A, 1, 0x62 :: byte]]. length p + 5 < 2 ^ 32"
    by simp
  have e: "werr (writer \<lparr>name = ''t'', messageSets = [],
             writer = \<lparr>accepted = [], werr = None, faults = []\<rparr>\<rparr>) = None"
    by simp
  have f: "faults (writer \<lparr>name = ''t'', messageSets = [],
             writer = \<lparr>accepted = [], werr = None, faults = []\<rparr>\<rparr>) = []"
    by simp
  show ?thesis
    using m C5_frame_layout [OF m b e f, of crc32_NewIEEE] by simp
qed

text \<open>
  An encoding error, and a failure of the write of the length, of the marker or of the
  checksum, stop the loop at once: the error is the result and no later call reaches the
  writer.
\<close>

lemma publish_loop_encode_error:
  "marshal m = Inl e \<Longrightarrow> publish_loop marshal crc (m # rest) t = (Some e, t)"
  by simp

lemma publish_loop_checked_write_error:
  assumes "marshal m = Inr p" and "werr (writer t) = None"
    and "faults (writer t) = replicate k None @ Some (n, e) # fs" and "k < 3"
  shows "fst (publish_loop marshal crc (m # rest) t) = Some e \<and>
         faults (writer (snd (publish_loop marshal crc (m # rest) t))) = fs"
proof -
  from assms(4) consider "k = 0" | "k = 1" | "k = 2" by linarith
  then show ?thesis
  proof cases
    case 1
    with assms(1,2,3) show ?thesis
      by (simp add: topic_Write_def writer_Write_def)
  next
    case 2
    with assms(1,2,3) show ?thesis
      by (simp add: topic_Write_def writer_Write_def)
  next
    case 3
    then have "replicate k (None :: fault) = [None, None]"
      by (simp add: numeral_2_eq_2)
    with assms(1,2,3) show ?thesis
      by (simp add: topic_Write_def writer_Write_def Let_def)
  qed
qed







section \<open>Choosing the segment and skipping to the offset\<close>

lemma locate_loop_sorted:
  assumes "sorted (map offsetBegin ms)"
  shows "locate_loop off cur ms =
           (case filter (\<lambda>m. offsetBegin m \<le> off) ms of [] \<Rightarrow> cur | q # qs \<Rightarrow> last (q # qs))"
  using assms
proof (induction ms arbitrary: cur)
  case Nil
  then show ?case by simp
next
  case (Cons m ms)
  show ?case
  proof (cases "offsetBegin m \<le> off")
    case True
    with Cons show ?thesis by (simp split: list.splits)
  next
    case False
    with Cons.prems have "filter (\<lambda>m. offsetBegin m \<le> off) ms = []"
      by (auto simp: filter_empty_conv)
    with False show ?thesis by simp
  qed
qed

text \<open>
  Claim C6. On a segment list that is not empty and is sorted ascending by
  \<open>offsetBegin\<close>, the segment that \<open>Subscribe\<close> opens is the last one whose
  \<open>offsetBegin\<close> is at most the requested offset, and the first segment when no segment
  has that.
\<close>

theorem C6_locate:
  assumes "sorted (map offsetBegin (first # others))"
  shows "locate_loop off first (first # others) = spec_Locate (first # others) off"
  using locate_loop_sorted [OF assms, of off first]
  by (simp add: spec_Locate_def split: list.splits)

theorem C6_locate_witness:
  "sorted (map offsetBegin [\<lparr>path = ''a'', offsetBegin = 0\<rparr>, \<lparr>path = ''b'', offsetBegin = 10\<rparr>,
                            \<lparr>path = ''c'', offsetBegin = 20\<rparr>])
   \<and> locate_loop 15 \<lparr>path = ''a'', offsetBegin = 0\<rparr>
         [\<lparr>path = ''a'', offsetBegin = 0\<rparr>, \<lparr>path = ''b'', offsetBegin = 10\<rparr>,
          \<lparr>path = ''c'', offsetBegin = 20\<rparr>]
       = \<lparr>path = ''b'', offsetBegin = 10\<rparr>"
proof -
  have s: "sorted (map offsetBegin [\<lparr>path = ''a'', offsetBegin = 0\<rparr>,
             \<lparr>path = ''b'', offsetBegin = 10\<rparr>, \<lparr>path = ''c'', offsetBegin = 20\<rparr>])"
    by simp
  show ?thesis
    using s C6_locate [OF s, of 15] by (simp add: spec_Locate_def)
qed

text \<open>
  When the requested offset is not below the segment's \<open>offsetBegin\<close> and the segment
  holds that many frames, the skipping loop drops exactly \<open>offset - offsetBegin\<close> of
  them.
\<close>

lemma skip_loop_done: "\<not> i < n \<Longrightarrow> skip_loop i n rs = Inr rs"
  by (cases rs) simp_all

lemma skip_loop_exact:
  assumes "i \<le> n" and "length bs = unat (n - i)"
  shows "skip_loop i n (map Inr bs @ rest) = Inr rest"
  using assms
proof (induction bs arbitrary: i)
  case Nil
  then have "n = i" by (simp add: unat_eq_0)
  then show ?case by (simp add: skip_loop_done)
next
  case (Cons b bs)
  from Cons.prems have ne: "n - i \<noteq> 0" by (auto simp: unat_eq_0)
  with Cons.prems(1) have lt: "i < n" by (simp add: order_less_le)
  then have le: "i + 1 \<le> n" by (simp add: inc_le)
  have "unat (n - (i + 1)) = unat (n - i) - 1"
    using lt by unat_arith
  with Cons.prems(2) have len: "length bs = unat (n - (i + 1))" by simp
  show ?case using lt Cons.IH [OF le len] by simp
qed

lemma skip_exactly_offset_difference:
  assumes "offsetBegin messageSet \<le> off"
    and "length bs = unat off - unat (offsetBegin messageSet)"
  shows "skip_loop 0 (off - offsetBegin messageSet) (map Inr bs @ rest) = Inr rest"
proof -
  have "unat (off - offsetBegin messageSet - 0) = unat off - unat (offsetBegin messageSet)"
    using assms(1) by (simp add: unat_sub)
  with assms(2) show ?thesis
    by (intro skip_loop_exact) simp_all
qed

text \<open>
  Claim C2. A request for an offset below the segment's \<open>offsetBegin\<close> should skip
  nothing and deliver from the segment's first message. The bound of the skipping loop is
  the \<open>uint64\<close> difference \<open>in.Offset - messageSet.offsetBegin\<close>, which wraps around: for
  offset 3 on a segment that begins at 5 it is \<open>2 ^ 64 - 2\<close>. The loop then reads and
  drops both messages of the segment and the call is left waiting for more, with nothing
  delivered.
\<close>

theorem C2_offset_below_segment_skips_all:
  "Subscribe (plain_extern [\<lparr>msg_offset = 0, msg_key = [], msg_value = [0x61]\<rparr>,
                            \<lparr>msg_offset = 0, msg_key = [], msg_value = [0x62]\<rparr>])
     (os_of [(''data'', [(''t'', True)]), (''data/t'', [(''000000000005.pubsub'', False)])]
            [(''data/t/000000000005.pubsub'', [Inr [0x5A, 1, 0x61], Inr [0x5A, 1, 0x62]])])
     \<lparr>dir = ''data'',
      topics = [''t'' \<mapsto> \<lparr>name = ''t'',
         messageSets = [\<lparr>path = ''data/t/000000000005.pubsub'', offsetBegin = 5\<rparr>],
         writer = \<lparr>accepted = [], werr = None, faults = []\<rparr>\<rparr>]\<rparr>
     \<lparr>sub_Topic = ''t'', sub_Offset = 3\<rparr>
     \<lparr>sent = [], send_faults = []\<rparr>
   = (Waiting, \<lparr>sent = [], send_faults = []\<rparr>)
   \<and> (3 :: uint64) - 5 = 18446744073709551614"
  by (simp add: Subscribe_def os_eval plain_extern_def Let_def minus2_uint64)

text \<open>
  Claim C4, as stated: at the end of a sealed segment the reader goes on with the next
  segment of the topic. \<open>Subscribe\<close> opens one file and reads from that reader alone. On
  a topic with a first segment of two messages and a second segment of one, a
  subscription from offset 0 delivers the two messages of the first segment and then
  waits; the message of the second segment is not delivered.
\<close>

theorem C4_no_handoff:
  "Subscribe (plain_extern [\<lparr>msg_offset = 0, msg_key = [], msg_value = [0x61]\<rparr>,
                            \<lparr>msg_offset = 1, msg_key = [], msg_value = [0x62]\<rparr>,
                            \<lparr>msg_offset = 2, msg_key = [], msg_value = [0x63]\<rparr>])
     (os_of [(''data'', [(''t'', True)]),
             (''data/t'', [(''000000000000.pubsub'', False), (''000000000002.pubsub'', False)])]
            [(''data/t/000000000000.pubsub'', [Inr [0x5A, 1, 0x61], Inr [8, 1, 0x5A, 1, 0x62]]),
             (''data/t/000000000002.pubsub'', [Inr [8, 2, 0x5A, 1, 0x63]])])
     \<lparr>dir = ''data'',
      topics = [''t'' \<mapsto> \<lparr>name = ''t'',
         messageSets = [\<lparr>path = ''data/t/000000000000.pubsub'', offsetBegin = 0\<rparr>,
                        \<lparr>path = ''data/t/000000000002.pubsub'', offsetBegin = 2\<rparr>],
         writer = \<lparr>accepted = [], werr = None, faults = []\<rparr>\<rparr>]\<rparr>
     \<lparr>sub_Topic = ''t'', sub_Offset = 0\<rparr>
     \<lparr>sent = [], send_faults = []\<rparr>
   = (Waiting,
      \<lparr>sent = [\<lparr>Messages = [\<lparr>msg_offset = 0, msg_key = [], msg_value = [0x61]\<rparr>]\<rparr>,
               \<lparr>Messages = [\<lparr>msg_offset = 1, msg_key = [], msg_value = [0x62]\<rparr>]\<rparr>],
       send_faults = []\<rparr>)"
  by (simp add: Subscribe_def os_eval plain_extern_def unmarshal_among_def wire_Marshal_def
      varint_small srv_Send_def Let_def)

text \<open>
  A subscription opens one file, the one that the choice of claim C6 gives, and reads
  from that reader alone: two systems that agree on that file give the same stream,
  whatever the other segments hold.
\<close>

lemma Subscribe_one_file:
  assumes "topics s (sub_Topic req) = Some topic"
    and "messageSets topic = first # others"
    and "p = path (locate_loop (sub_Offset req) first (first # others))"
    and "os_fail os2 p = os_fail os1 p"
    and "os_files os2 p = os_files os1 p"
    and "os_frames os2 p = os_frames os1 p"
  shows "Subscribe ext os2 s req srv = Subscribe ext os1 s req srv"
  using assms(1,2,4,5,6) unfolding assms(3)
  by (auto simp add: Subscribe_def os_Open_def os_OpenFile_def Let_def
      simp del: locate_loop.simps split: option.splits)

lemma os_Open_Inr: "os_Open p os = Inr f \<Longrightarrow> f = p"
  by (auto simp: os_Open_def os_OpenFile_def split: option.splits if_splits)

text \<open>
  On a reader whose reads all succeed, the skipping loop drops the first \<open>n - i\<close>
  frames, and waits when the reader holds fewer.
\<close>

lemma skip_loop_map_Inr:
  assumes "i \<le> n"
  shows "skip_loop i n (map Inr bs) =
           (if unat (n - i) \<le> length bs then Inr (map Inr (drop (unat (n - i)) bs))
            else Inl Waiting)"
  using assms
proof (induction bs arbitrary: i)
  case Nil
  then have "i < n \<longleftrightarrow> n - i \<noteq> 0" by (auto simp: order_less_le)
  then show ?case by (simp add: unat_eq_0)
next
  case (Cons b bs)
  show ?case
  proof (cases "i < n")
    case True
    then have le: "i + 1 \<le> n" by (simp add: inc_le)
    have u: "unat (n - i) = Suc (unat (n - (i + 1)))"
      using True by unat_arith
    show ?thesis using True Cons.IH [OF le] by (simp add: u)
  next
    case False
    with Cons.prems have "n = i" by simp
    then show ?thesis by simp
  qed
qed

text \<open>When no \<open>Send\<close> fails, every payload read is answered and the loop ends waiting.\<close>

lemma deliver_loop_sends_all:
  "send_faults srv = [] \<Longrightarrow>
     deliver_loop unmarshal (map Inr bs) srv =
       (Waiting, srv\<lparr>sent := sent srv @ map (\<lambda>b. \<lparr>Messages = [snd (unmarshal b)]\<rparr>) bs\<rparr>)"
  by (induction bs arbitrary: srv) (simp_all add: srv_Send_def Let_def split: prod.splits)

text \<open>
  Claim C4, amended. A subscription, also on a topic with several segments, reads the one
  segment that the choice of claim C6 gives and no other. When the requested offset is not
  below that segment's \<open>offsetBegin\<close>, the file opens, every frame in it reads and no
  \<open>Send\<close> fails, the subscriber gets exactly the messages of that segment from position
  \<open>offset - offsetBegin\<close> on, in their order, and at the end of that segment the call
  waits for more data there: it does not go on to the next segment.
\<close>

theorem C4_reads_chosen_segment_then_waits:
  assumes "topics s (sub_Topic req) = Some topic"
    and "messageSets topic = first # others"
    and "messageSet = locate_loop (sub_Offset req) first (first # others)"
    and "offsetBegin messageSet \<le> sub_Offset req"
    and "os_Open (path messageSet) os = Inr f"
    and "os_frames os (path messageSet) = map Inr bs"
    and "send_faults srv = []"
  shows "Subscribe ext os s req srv =
           (Waiting,
            srv\<lparr>sent := sent srv @
                   map (\<lambda>b. \<lparr>Messages = [snd (proto_Unmarshal ext b)]\<rparr>)
                     (drop (unat (sub_Offset req) - unat (offsetBegin messageSet)) bs)\<rparr>)"
proof -
  let ?n = "sub_Offset req - offsetBegin messageSet"
  let ?k = "unat (sub_Offset req) - unat (offsetBegin messageSet)"
  have f: "f = path messageSet" using assms(5) by (rule os_Open_Inr)
  have k: "unat (?n - 0) = ?k" using assms(4) by (simp add: unat_sub)
  have skip: "skip_loop 0 ?n (os_frames os f) =
      (if ?k \<le> length bs then Inr (map Inr (drop ?k bs)) else Inl Waiting)"
    using skip_loop_map_Inr [of 0 ?n bs] by (simp only: f assms(6) k) simp
  have sub: "Subscribe ext os s req srv =
      (case skip_loop 0 ?n (os_frames os f) of
         Inl e \<Rightarrow> (e, srv)
       | Inr mReader \<Rightarrow> deliver_loop (proto_Unmarshal ext) mReader srv)"
    using assms(1,2,5) unfolding assms(3)
    by (simp add: Subscribe_def Let_def del: locate_loop.simps)
  show ?thesis
  proof (cases "?k \<le> length bs")
    case True
    then show ?thesis
      by (simp add: sub skip deliver_loop_sends_all [OF assms(7)])
  next
    case False
    then show ?thesis by (simp add: sub skip)
  qed
qed

theorem C4_reads_chosen_segment_then_waits_witness:
  "Subscribe (plain_extern [\<lparr>msg_offset = 0, msg_key = [], msg_value = [0x61]\<rparr>,
                            \<lparr>msg_offset = 1, msg_key = [], msg_value = [0x62]\<rparr>,
                            \<lparr>msg_offset = 2, msg_key = [], msg_value = [0x63]\<rparr>])
     (os_of [(''data'', [(''t'', True)]),
             (''data/t'', [(''000000000000.pubsub'', False), (''000000000002.pubsub'', False)])]
            [(''data/t/000000000000.pubsub'', [Inr [0x5A, 1, 0x61], Inr [8, 1, 0x5A, 1, 0x62]]),
             (''data/t/000000000002.pubsub'', [Inr [8, 2, 0x5A, 1, 0x63]])])
     \<lparr>dir = ''data'',
      topics = [''t'' \<mapsto> \<lparr>name = ''t'',
         messageSets = [\<lparr>path = ''data/t/000000000000.pubsub'', offsetBegin = 0\<rparr>,
                        \<lparr>path = ''data/t/000000000002.pubsub'', offsetBegin = 2\<rparr>],
         writer = \<lparr>accepted = [], werr = None, faults = []\<rparr>\<rparr>]\<rparr>
     \<lparr>sub_Topic = ''t'', sub_Offset = 1\<rparr>
     \<lparr>sent = [], send_faults = []\<rparr>
   = (Waiting,
      \<lparr>sent = [\<lparr>Messages = [\<lparr>msg_offset = 1, msg_key = [], msg_value = [0x62]\<rparr>]\<rparr>],
       send_faults = []\<rparr>)"
proof -
  let ?ext = "plain_extern [\<lparr>msg_offset = 0, msg_key = [], msg_value = [0x61]\<rparr>,
                            \<lparr>msg_offset = 1, msg_key = [], msg_value = [0x62]\<rparr>,
                            \<lparr>msg_offset = 2, msg_key = [], msg_value = [0x63]\<rparr>]"
  let ?os = "os_of [(''data'', [(''t'', True)]),
             (''data/t'', [(''000000000000.pubsub'', False), (''000000000002.pubsub'', False)])]
            [(''data/t/000000000000.pubsub'', [Inr [0x5A, 1, 0x61], Inr [8, 1, 0x5A, 1, 0x62]]),
             (''data/t/000000000002.pubsub'', [Inr [8, 2, 0x5A, 1, 0x63]])]"
  let ?first = "\<lparr>path = ''data/t/000000000000.pubsub'', offsetBegin = 0\<rparr>"
  let ?second = "\<lparr>path = ''data/t/000000000002.pubsub'', offsetBegin = 2\<rparr>"
  let ?topic = "\<lparr>name = ''t'', messageSets = [?first, ?second],
         writer = \<lparr>accepted = [], werr = None, faults = []\<rparr>\<rparr>"
  let ?s = "\<lparr>dir = ''data'', topics = [''t'' \<mapsto> ?topic]\<rparr>"
  let ?req = "\<lparr>sub_Topic = ''t'', sub_Offset = 1\<rparr>"
  let ?srv = "\<lparr>sent = [], send_faults = []\<rparr>"
  have h1: "topics ?s (sub_Topic ?req) = Some ?topic" by simp
  have h2: "messageSets ?topic = ?first # [?second]" by simp
  have h3: "?first = locate_loop (sub_Offset ?req) ?first (?first # [?second])"
    by (simp add: word_le_nat_alt)
  have h4: "offsetBegin ?first \<le> sub_Offset ?req" by simp
  have h5: "os_Open (path ?first) ?os = Inr ''data/t/000000000000.pubsub''"
    by (simp add: os_eval)
  have h6: "os_frames ?os (path ?first) = map Inr [[0x5A, 1, 0x61], [8, 1, 0x5A, 1, 0x62]]"
    by (simp add: os_of_def)
  have h7: "send_faults ?srv = []" by simp
  show ?thesis
    using C4_reads_chosen_segment_then_waits [OF h1 h2 h3 h4 h5 h6 h7, of ?ext]
    by (simp add: plain_extern_def unmarshal_among_def wire_Marshal_def varint_small)
qed

text \<open>
  Claim C9. In the delivery loop the error of \<open>proto.Unmarshal\<close> is dropped: the loop
  runs as it would with an unmarshal that never fails and leaves the same message. When
  no \<open>Send\<close> fails and every payload read fails to unmarshal, a response with the
  message object of each payload is sent all the same, and the stream goes on until the
  reader has to wait.
\<close>

theorem C9_unmarshal_error_discarded:
  "deliver_loop unmarshal rs srv = deliver_loop (\<lambda>b. (None, snd (unmarshal b))) rs srv \<and>
   (send_faults srv = [] \<longrightarrow> (\<forall>b\<in>set bs. fst (unmarshal b) \<noteq> None) \<longrightarrow>
      deliver_loop unmarshal (map Inr bs) srv =
        (Waiting, srv\<lparr>sent := sent srv @ map (\<lambda>b. \<lparr>Messages = [snd (unmarshal b)]\<rparr>) bs\<rparr>))"
proof -
  have a: "deliver_loop unmarshal rs srv = deliver_loop (\<lambda>b. (None, snd (unmarshal b))) rs srv"
    by (induction rs arbitrary: srv)
       (simp_all add: Let_def split: sum.splits prod.splits option.splits)
  have b: "send_faults srv = [] \<Longrightarrow> deliver_loop unmarshal (map Inr bs) srv =
        (Waiting, srv\<lparr>sent := sent srv @ map (\<lambda>b. \<lparr>Messages = [snd (unmarshal b)]\<rparr>) bs\<rparr>)"
    by (induction bs arbitrary: srv) (simp_all add: srv_Send_def Let_def split: prod.splits)
  from a b show ?thesis by blast
qed

theorem C9_unmarshal_error_discarded_witness:
  "fst (unmarshal_among [] [0xFF]) \<noteq> None
   \<and> fst (unmarshal_among [] [0xFF, 0xFF]) \<noteq> None
   \<and> deliver_loop (unmarshal_among []) (map Inr [[0xFF], [0xFF, 0xFF]])
         \<lparr>sent = [], send_faults = []\<rparr>
       = (Waiting,
          \<lparr>sent = [\<lparr>Messages = [\<lparr>msg_offset = 0, msg_key = [], msg_value = []\<rparr>]\<rparr>,
                   \<lparr>Messages = [\<lparr>msg_offset = 0, msg_key = [], msg_value = []\<rparr>]\<rparr>],
           send_faults = []\<rparr>)"
proof -
  have h1: "send_faults \<lparr>sent = [], send_faults = []\<rparr> = []" by simp
  have h2: "\<forall>b\<in>set [[0xFF], [0xFF, 0xFF]]. fst (unmarshal_among [] b) \<noteq> None"
    by (simp add: unmarshal_among_def)
  show ?thesis
    using h2 C9_unmarshal_error_discarded [of "unmarshal_among []" "[]"
        "\<lparr>sent = [], send_faults = []\<rparr>" "[[0xFF], [0xFF, 0xFF]]"]
    by (simp add: unmarshal_among_def)
qed

section \<open>Topics that the registry does not hold\<close>

text \<open>
  Claim C7. For a topic name that is not in the registry, \<open>Subscribe\<close> returns the
  no-such-topic error and sends nothing. \<open>PublishMulti\<close>, when \<open>MkdirAll\<close> and
  \<open>OpenFile\<close> succeed, creates the topic's directory and the file
  \<open>000000000000.pubsub\<close> in it (keeping the file if it is there already), registers a
  topic whose one segment is that file with \<open>offsetBegin\<close> 0, and goes on with the
  append on that topic.
\<close>

theorem C7_unknown_topic:
  assumes "topics s tn = None"
    and "P = path_Join ext [dir s, tn, ''000000000000.pubsub'']"
    and "os_fail os (path_Dir ext P) = None" and "os_files os (path_Dir ext P) = None"
    and "os_fail os P = None"
  shows "Subscribe ext os s \<lparr>sub_Topic = tn, sub_Offset = off\<rparr> srv
           = (Returned (NoSuchTopic tn), srv) \<and>
         PublishMulti ext \<lparr>pm_Topic = tn, pm_Messages = ms\<rparr> (s, os) =
           (let topic = \<lparr>name = tn, messageSets = [\<lparr>path = P, offsetBegin = 0\<rparr>],
                         writer = \<lparr>accepted = [], werr = None, faults = os_wfaults os P\<rparr>\<rparr>;
                os' = os\<lparr>os_dirs := os_dirs os \<union>
                                      set (path_parents (path_Dir ext P) @ [path_Dir ext P]),
                         os_files := (if os_files os P = None then (os_files os)(P \<mapsto> [])
                                      else os_files os)\<rparr>
            in case publish_append ext \<lparr>pm_Topic = tn, pm_Messages = ms\<rparr>
                      (s\<lparr>topics := (topics s)(tn \<mapsto> topic)\<rparr>) topic of
                 (r, s') \<Rightarrow> (r, s', os'))"
proof -
  have n: "Sprintf_012d 0 @ ''.pubsub'' = ''000000000000.pubsub''"
    by (simp add: Sprintf_012d_0)
  have "Subscribe ext os s \<lparr>sub_Topic = tn, sub_Offset = off\<rparr> srv
           = (Returned (NoSuchTopic tn), srv)"
    using assms(1) by (simp add: Subscribe_def)
  moreover have "PublishMulti ext \<lparr>pm_Topic = tn, pm_Messages = ms\<rparr> (s, os) =
           (let topic = \<lparr>name = tn, messageSets = [\<lparr>path = P, offsetBegin = 0\<rparr>],
                         writer = \<lparr>accepted = [], werr = None, faults = os_wfaults os P\<rparr>\<rparr>;
                os' = os\<lparr>os_dirs := os_dirs os \<union>
                                      set (path_parents (path_Dir ext P) @ [path_Dir ext P]),
                         os_files := (if os_files os P = None then (os_files os)(P \<mapsto> [])
                                      else os_files os)\<rparr>
            in case publish_append ext \<lparr>pm_Topic = tn, pm_Messages = ms\<rparr>
                      (s\<lparr>topics := (topics s)(tn \<mapsto> topic)\<rparr>) topic of
                 (r, s') \<Rightarrow> (r, s', os'))"
    using assms(1,3,4,5)
    by (simp add: PublishMulti_def n assms(2) [symmetric] os_MkdirAll_def os_OpenFile_def
        bufio_NewWriter_def Let_def split: prod.splits)
  ultimately show ?thesis by simp
qed

theorem C7_unknown_topic_witness:
  "Subscribe (plain_extern []) (os_of [(''data'', [])] []) \<lparr>dir = ''data'', topics = Map.empty\<rparr>
         \<lparr>sub_Topic = ''t'', sub_Offset = 0\<rparr> \<lparr>sent = [], send_faults = []\<rparr>
       = (Returned (NoSuchTopic ''t''), \<lparr>sent = [], send_faults = []\<rparr>)
   \<and> PublishMulti (plain_extern [])
         \<lparr>pm_Topic = ''t'', pm_Messages = [\<lparr>msg_offset = 0, msg_key = [], msg_value = [0x61]\<rparr>]\<rparr>
         (\<lparr>dir = ''data'', topics = Map.empty\<rparr>, os_of [(''data'', [])] [])
       = (Inr PublishMultiReply,
          \<lparr>dir = ''data'',
           topics = [''t'' \<mapsto> \<lparr>name = ''t'',
             messageSets = [\<lparr>path = ''data/t/000000000000.pubsub'', offsetBegin = 0\<rparr>],
             writer = \<lparr>accepted = [8, 0, 0, 0, 0, 0, 0, 0, 0, 0x5A, 1, 0x61], werr = None, faults = []\<rparr>\<rparr>]\<rparr>,
          (os_of [(''data'', [])] [])
            \<lparr>os_dirs := {''data'', ''data/t''},
             os_files := [''data/t/000000000000.pubsub'' \<mapsto> []]\<rparr>)"
proof -
  let ?s = "\<lparr>dir = ''data'', topics = Map.empty\<rparr>"
  let ?os = "os_of [(''data'', [])] []"
  have h1: "topics ?s ''t'' = None" by simp
  have h2: "''data/t/000000000000.pubsub''
       = path_Join (plain_extern []) [dir ?s, ''t'', ''000000000000.pubsub'']"
    by (simp add: plain_extern_def slash_Join_def)
  have h3: "os_fail ?os (path_Dir (plain_extern []) ''data/t/000000000000.pubsub'') = None"
    by (simp add: os_of_def)
  have h4: "os_files ?os (path_Dir (plain_extern []) ''data/t/000000000000.pubsub'') = None"
    by (simp add: os_of_def)
  have h5: "os_fail ?os ''data/t/000000000000.pubsub'' = None"
    by (simp add: os_of_def)
  show ?thesis
    using C7_unknown_topic [OF h1 h2 h3 h4 h5, of 0 "\<lparr>sent = [], send_faults = []\<rparr>"
        "[\<lparr>msg_offset = 0, msg_key = [], msg_value = [0x61]\<rparr>]"]
    by (simp add: publish_append_def wire_a writer_eval os_of_def plain_extern_def
        slash_Join_def slash_Dir_def path_parents_def Let_def insert_commute)
qed

text \<open>
  Claim C10. \<open>PublishMulti\<close> with a topic name that is not in the registry and no
  message, when \<open>MkdirAll\<close>, \<open>OpenFile\<close> and \<open>Flush\<close> succeed and the segment file is
  not there yet: the call returns success; the registry holds the new topic, with one
  segment of \<open>offsetBegin\<close> 0 and nothing written; every other entry of the registry is
  as before; the topic's directory exists and the segment file exists and is empty.
\<close>

theorem C10_empty_batch:
  assumes "topics s tn = None"
    and "P = path_Join ext [dir s, tn, ''000000000000.pubsub'']"
    and "os_fail os (path_Dir ext P) = None" and "os_files os (path_Dir ext P) = None"
    and "os_fail os P = None" and "os_files os P = None"
    and "fst (writer_Flush \<lparr>accepted = [], werr = None, faults = os_wfaults os P\<rparr>) = None"
  shows "case PublishMulti ext \<lparr>pm_Topic = tn, pm_Messages = []\<rparr> (s, os) of
           (r, s', os') \<Rightarrow>
             r = Inr PublishMultiReply \<and>
             topics s' tn = Some \<lparr>name = tn, messageSets = [\<lparr>path = P, offsetBegin = 0\<rparr>],
                                  writer = snd (writer_Flush
                                    \<lparr>accepted = [], werr = None, faults = os_wfaults os P\<rparr>)\<rparr> \<and>
             accepted (snd (writer_Flush \<lparr>accepted = [], werr = None, faults = os_wfaults os P\<rparr>)) = [] \<and>
             (\<forall>k. k \<noteq> tn \<longrightarrow> topics s' k = topics s k) \<and>
             dir s' = dir s \<and>
             os_dirs os' = os_dirs os \<union>
                             set (path_parents (path_Dir ext P) @ [path_Dir ext P]) \<and>
             path_Dir ext P \<in> os_dirs os' \<and>
             os_files os' = (os_files os)(P \<mapsto> [])"
proof -
  have n: "Sprintf_012d 0 @ ''.pubsub'' = ''000000000000.pubsub''"
    by (simp add: Sprintf_012d_0)
  obtain r w where f: "writer_Flush \<lparr>accepted = [], werr = None, faults = os_wfaults os P\<rparr> = (r, w)"
    by (cases "writer_Flush \<lparr>accepted = [], werr = None, faults = os_wfaults os P\<rparr>")
  with assms(7) have r: "r = None" by simp
  have a: "accepted w = []"
    using f by (auto simp: writer_Flush_def split: list.splits option.splits)
  show ?thesis
    using assms(1,3,4,5,6) f r a
    by (simp add: PublishMulti_def publish_append_def n assms(2) [symmetric] os_MkdirAll_def
        os_OpenFile_def bufio_NewWriter_def topic_Flush_def Let_def)
qed

theorem C10_empty_batch_witness:
  "PublishMulti (plain_extern []) \<lparr>pm_Topic = ''t'', pm_Messages = []\<rparr>
     (\<lparr>dir = ''data'',
       topics = [''u'' \<mapsto> \<lparr>name = ''u'',
          messageSets = [\<lparr>path = ''data/u/000000000000.pubsub'', offsetBegin = 0\<rparr>],
          writer = \<lparr>accepted = [], werr = None, faults = []\<rparr>\<rparr>]\<rparr>,
      os_of [(''data'', [(''u'', True)]), (''data/u'', [(''000000000000.pubsub'', False)])]
            [(''data/u/000000000000.pubsub'', [])])
   = (Inr PublishMultiReply,
      \<lparr>dir = ''data'',
       topics = [''u'' \<mapsto> \<lparr>name = ''u'',
          messageSets = [\<lparr>path = ''data/u/000000000000.pubsub'', offsetBegin = 0\<rparr>],
          writer = \<lparr>accepted = [], werr = None, faults = []\<rparr>\<rparr>,
                 ''t'' \<mapsto> \<lparr>name = ''t'',
          messageSets = [\<lparr>path = ''data/t/000000000000.pubsub'', offsetBegin = 0\<rparr>],
          writer = \<lparr>accepted = [], werr = None, faults = []\<rparr>\<rparr>]\<rparr>,
      (os_of [(''data'', [(''u'', True)]), (''data/u'', [(''000000000000.pubsub'', False)])]
             [(''data/u/000000000000.pubsub'', [])])
        \<lparr>os_dirs := {''data'', ''data/u'', ''data/t''},
         os_files := [''data/u/000000000000.pubsub'' \<mapsto> [],
                      ''data/t/000000000000.pubsub'' \<mapsto> []]\<rparr>)"
proof -
  let ?s = "\<lparr>dir = ''data'',
       topics = [''u'' \<mapsto> \<lparr>name = ''u'',
          messageSets = [\<lparr>path = ''data/u/000000000000.pubsub'', offsetBegin = 0\<rparr>],
          writer = \<lparr>accepted = [], werr = None, faults = []\<rparr>\<rparr>]\<rparr>"
  let ?os = "os_of [(''data'', [(''u'', True)]), (''data/u'', [(''000000000000.pubsub'', False)])]
            [(''data/u/000000000000.pubsub'', [])]"
  have h1: "topics ?s ''t'' = None" by simp
  have h2: "''data/t/000000000000.pubsub''
       = path_Join (plain_extern []) [dir ?s, ''t'', ''000000000000.pubsub'']"
    by (simp add: plain_extern_def slash_Join_def)
  have h3: "os_fail ?os (path_Dir (plain_extern []) ''data/t/000000000000.pubsub'') = None"
    by (simp add: os_of_def)
  have h4: "os_files ?os (path_Dir (plain_extern []) ''data/t/000000000000.pubsub'') = None"
    by (simp add: os_of_def plain_extern_def slash_Dir_def)
  have h5: "os_fail ?os ''data/t/000000000000.pubsub'' = None"
    by (simp add: os_of_def)
  have h6: "os_files ?os ''data/t/000000000000.pubsub'' = None"
    by (simp add: os_of_def)
  have h7: "fst (writer_Flush
      \<lparr>accepted = [], werr = None, faults = os_wfaults ?os ''data/t/000000000000.pubsub''\<rparr>) = None"
    by (simp add: os_of_def writer_Flush_def)
  show ?thesis
    using C10_empty_batch [OF h1 h2 h3 h4 h5 h6 h7]
    by (simp add: PublishMulti_def publish_append_def Sprintf_012d_0 writer_eval os_eval
        plain_extern_def slash_Join_def slash_Dir_def Let_def insert_commute)
qed

section \<open>Start-up\<close>

text \<open>
  A topic directory that can be listed and holds no file with the \<open>.pubsub\<close> extension
  makes the loop over the data directory panic when it gets there.
\<close>

lemma init_messageSets_no_pubsub:
  "\<forall>f\<in>set files. filepath_Ext (fst f) \<noteq> ''.pubsub'' \<Longrightarrow>
     init_messageSets ext d tn files sets = Inr sets"
  by (induction files) simp_all

lemma init_loop_empty_topic_panics:
  assumes "ioutil_ReadDir (path_Join ext [d, tn]) os = Inr files"
    and "\<forall>f\<in>set files. filepath_Ext (fst f) \<noteq> ''.pubsub''"
  shows "init_loop ext os d ((tn, True) # rest) ts = Panic ''runtime error: index out of range''"
  using assms(1) init_messageSets_no_pubsub [OF assms(2), of ext d tn "[]"]
  by (simp add: sort_MessageSetSort_def)

text \<open>
  Claim C8. Start-up should never index an empty segment list: a topic directory without
  a \<open>.pubsub\<close> file should be skipped or give an error. The guard before the index
  tests \<open>len(topic.messageSets) < 0\<close>, which no length satisfies, so such a directory
  reaches \<open>topic.messageSets[len(topic.messageSets)-1]\<close> with an empty slice. On a data
  directory with one topic directory that holds only \<open>notes.txt\<close>, \<open>NewServer\<close> panics.
\<close>

theorem C8_init_panics_on_empty_topic_dir:
  "NewServer (plain_extern [])
     (os_of [(''data'', [(''t'', True)]), (''data/t'', [(''notes.txt'', False)])]
            [(''data/t/notes.txt'', [])])
     ''data''
   = Panic ''runtime error: index out of range''"
  by (simp add: NewServer_def init_def os_eval plain_extern_def slash_Join_def filepath_Ext_def
        sort_MessageSetSort_def Let_def)

end
